theory Spec2Isabelle
  imports Complex_Main
begin

section \<open>JavaScript numbers\<close>

text \<open>
  The counter of \<^verbatim>\<open>modules/animations/AnimatedCounter\<close> computes with JavaScript
  numbers. They are modelled as exact rationals extended with \<open>NaN\<close> and the two
  infinities, which is what the code can observe through \<^verbatim>\<open>parseInt\<close>,
  \<^verbatim>\<open>parseFloat\<close>, division and comparison. The rounding of binary floating point,
  overflow to infinity and the sign of zero are outside the model.
\<close>

datatype jsnum = NaN | NInf | Fin rat | PInf

definition inf_of_sign :: "rat \<Rightarrow> jsnum" where
  "inf_of_sign s = (if 0 < s then PInf else if s < 0 then NInf else NaN)"

fun sign_of :: "jsnum \<Rightarrow> rat" where
  "sign_of NaN = 0"
| "sign_of NInf = - 1"
| "sign_of (Fin x) = sgn x"
| "sign_of PInf = 1"

text \<open>\<^verbatim>\<open>a - b\<close>\<close>

fun js_sub :: "jsnum \<Rightarrow> jsnum \<Rightarrow> jsnum" where
  "js_sub NaN _ = NaN"
| "js_sub _ NaN = NaN"
| "js_sub (Fin x) (Fin y) = Fin (x - y)"
| "js_sub PInf PInf = NaN"
| "js_sub NInf NInf = NaN"
| "js_sub PInf _ = PInf"
| "js_sub NInf _ = NInf"
| "js_sub (Fin x) PInf = NInf"
| "js_sub (Fin x) NInf = PInf"

text \<open>\<^verbatim>\<open>a * b\<close>: a product with an infinite factor has the product of the signs, and
  zero times infinity is \<open>NaN\<close>.\<close>

fun js_mul :: "jsnum \<Rightarrow> jsnum \<Rightarrow> jsnum" where
  "js_mul NaN _ = NaN"
| "js_mul _ NaN = NaN"
| "js_mul (Fin x) (Fin y) = Fin (x * y)"
| "js_mul a b = inf_of_sign (sign_of a * sign_of b)"

text \<open>\<^verbatim>\<open>a / b\<close>: a zero divisor is read as \<open>+0\<close>.\<close>

fun js_div :: "jsnum \<Rightarrow> jsnum \<Rightarrow> jsnum" where
  "js_div NaN _ = NaN"
| "js_div _ NaN = NaN"
| "js_div (Fin x) (Fin y) = (if y = 0 then inf_of_sign x else Fin (x / y))"
| "js_div (Fin x) _ = Fin 0"
| "js_div a (Fin y) = inf_of_sign (sign_of a * (if y < 0 then - 1 else 1))"
| "js_div _ _ = NaN"

text \<open>\<^verbatim>\<open>a < b\<close>, \<^verbatim>\<open>a <= b\<close>, \<^verbatim>\<open>a > b\<close>, \<^verbatim>\<open>a >= b\<close>: every comparison with
  \<open>NaN\<close> is false.\<close>

fun js_lt :: "jsnum \<Rightarrow> jsnum \<Rightarrow> bool" where
  "js_lt (Fin x) (Fin y) = (x < y)"
| "js_lt NInf (Fin y) = True"
| "js_lt NInf PInf = True"
| "js_lt (Fin x) PInf = True"
| "js_lt _ _ = False"

fun js_le :: "jsnum \<Rightarrow> jsnum \<Rightarrow> bool" where
  "js_le NaN _ = False"
| "js_le _ NaN = False"
| "js_le (Fin x) (Fin y) = (x \<le> y)"
| "js_le NInf _ = True"
| "js_le _ PInf = True"
| "js_le _ _ = False"

definition js_gt :: "jsnum \<Rightarrow> jsnum \<Rightarrow> bool" where
  "js_gt a b = js_lt b a"

definition js_ge :: "jsnum \<Rightarrow> jsnum \<Rightarrow> bool" where
  "js_ge a b = js_le b a"

text \<open>\<^verbatim>\<open>Math.round\<close>: the nearest integer, a tie going up.\<close>

fun js_round :: "jsnum \<Rightarrow> jsnum" where
  "js_round (Fin x) = Fin (of_int \<lfloor>x + 1 / 2\<rfloor>)"
| "js_round a = a"

text \<open>\<^verbatim>\<open>!a\<close> and \<^verbatim>\<open>Boolean(a)\<close> on a number.\<close>

definition falsy :: "jsnum \<Rightarrow> bool" where
  "falsy a = (a = NaN \<or> a = Fin 0)"

section \<open>Strings to numbers\<close>

text \<open>
  Strings are lists of characters; the models below follow ECMAScript on ASCII input
  (the white space and digits a directive is written with). A character outside ASCII
  stands as the bytes of its UTF-8 encoding.
\<close>

definition is_ws :: "char \<Rightarrow> bool" where
  "is_ws c = (c \<in> set [CHR 0x09, CHR 0x0A, CHR 0x0B, CHR 0x0C, CHR 0x0D, CHR 0x20])"

definition digit_val :: "char \<Rightarrow> int option" where
  "digit_val c =
     (let n = (of_char c :: int) in
      if 48 \<le> n \<and> n \<le> 57 then Some (n - 48)
      else if 97 \<le> n \<and> n \<le> 102 then Some (n - 87)
      else if 65 \<le> n \<and> n \<le> 70 then Some (n - 55)
      else None)"

definition is_digit :: "int \<Rightarrow> char \<Rightarrow> bool" where
  "is_digit r c = (case digit_val c of None \<Rightarrow> False | Some d \<Rightarrow> d < r)"

definition digits_value :: "int \<Rightarrow> string \<Rightarrow> int" where
  "digits_value r s = foldl (\<lambda>n c. n * r + the (digit_val c)) 0 s"

text \<open>\<^verbatim>\<open>parseInt(s)\<close> with no radix: leading white space, a sign, an optional
  \<^verbatim>\<open>0x\<close>, then the longest run of digits; \<open>NaN\<close> when there is none.\<close>

definition parseInt :: "string \<Rightarrow> jsnum" where
  "parseInt s =
     (let s1 = dropWhile is_ws s;
          neg = (take 1 s1 = ''-'');
          s2 = (if take 1 s1 = ''-'' \<or> take 1 s1 = ''+'' then drop 1 s1 else s1);
          hex = (take 2 s2 = ''0x'' \<or> take 2 s2 = ''0X'');
          r = (if hex then 16 else (10 :: int));
          s3 = (if hex then drop 2 s2 else s2);
          z = takeWhile (is_digit r) s3
      in if z = [] then NaN
         else Fin ((if neg then - 1 else 1) * of_int (digits_value r z)))"

text \<open>The longest prefix that is an unsigned decimal literal (\<^verbatim>\<open>Infinity\<close>,
  \<^verbatim>\<open>12\<close>, \<^verbatim>\<open>12.\<close>, \<^verbatim>\<open>12.5\<close>, \<^verbatim>\<open>.5\<close>, each but the first with an optional
  exponent), with its value and the rest of the string.\<close>

definition scan_exponent :: "rat \<Rightarrow> string \<Rightarrow> jsnum \<times> string" where
  "scan_exponent m s =
     (if take 1 s = ''e'' \<or> take 1 s = ''E'' then
        (let s1 = drop 1 s;
             neg = (take 1 s1 = ''-'');
             s2 = (if take 1 s1 = ''-'' \<or> take 1 s1 = ''+'' then drop 1 s1 else s1);
             es = takeWhile (is_digit 10) s2
         in if es = [] then (Fin m, s)
            else (Fin (if neg then m / 10 ^ nat (digits_value 10 es)
                       else m * 10 ^ nat (digits_value 10 es)),
                  dropWhile (is_digit 10) s2))
      else (Fin m, s))"

definition scan_unsigned :: "string \<Rightarrow> (jsnum \<times> string) option" where
  "scan_unsigned s =
     (if take 8 s = ''Infinity'' then Some (PInf, drop 8 s)
      else
        (let ip = takeWhile (is_digit 10) s;
             r1 = dropWhile (is_digit 10) s
         in if take 1 r1 = ''.'' then
              (let fp = takeWhile (is_digit 10) (drop 1 r1);
                   r2 = dropWhile (is_digit 10) (drop 1 r1)
               in if ip = [] \<and> fp = [] then None
                  else Some (scan_exponent
                    (of_int (digits_value 10 ip) + of_int (digits_value 10 fp) / 10 ^ length fp) r2))
            else if ip = [] then None
            else Some (scan_exponent (of_int (digits_value 10 ip)) r1)))"

definition js_neg :: "jsnum \<Rightarrow> jsnum" where
  "js_neg a = js_sub (Fin 0) a"

definition scan_signed :: "string \<Rightarrow> (jsnum \<times> string) option" where
  "scan_signed s =
     (if take 1 s = ''-'' then map_option (\<lambda>(v, r). (js_neg v, r)) (scan_unsigned (drop 1 s))
      else if take 1 s = ''+'' then scan_unsigned (drop 1 s)
      else scan_unsigned s)"

text \<open>\<^verbatim>\<open>parseFloat(s)\<close>: leading white space, then the longest prefix that is a
  decimal literal; \<open>NaN\<close> when there is none.\<close>

definition parseFloat :: "string \<Rightarrow> jsnum" where
  "parseFloat s = (case scan_signed (dropWhile is_ws s) of None \<Rightarrow> NaN | Some (v, _) \<Rightarrow> v)"

text \<open>The conversion of a string to a number that a comparison of a string with a
  number performs: the whole string, white space trimmed, must be a numeric literal;
  the empty string is \<open>0\<close>.\<close>

definition radix_literal :: "string \<Rightarrow> jsnum option" where
  "radix_literal s =
     (let r = (if take 2 s = ''0x'' \<or> take 2 s = ''0X'' then 16
               else if take 2 s = ''0o'' \<or> take 2 s = ''0O'' then 8
               else if take 2 s = ''0b'' \<or> take 2 s = ''0B'' then 2 else (0 :: int))
      in if r = 0 then None
         else if drop 2 s \<noteq> [] \<and> list_all (is_digit r) (drop 2 s)
           then Some (Fin (of_int (digits_value r (drop 2 s))))
         else Some NaN)"

definition to_number :: "string \<Rightarrow> jsnum" where
  "to_number s =
     (let t = rev (dropWhile is_ws (rev (dropWhile is_ws s)))
      in if t = [] then Fin 0
         else case radix_literal t of
           Some v \<Rightarrow> v
         | None \<Rightarrow> (case scan_signed t of Some (v, []) \<Rightarrow> v | _ \<Rightarrow> NaN))"

section \<open>The number formatter\<close>

text \<open>
  The counter renders numbers with the host's \<^verbatim>\<open>Intl.NumberFormat\<close>. Its
  constructor receives the language and the options below and either raises or yields the
  \<^verbatim>\<open>format\<close> function of the new formatter; the model of the counter takes it
  as a parameter.
\<close>

datatype error = TypeError | RangeError

record format =
  style :: string
  currency :: "string option"
  unit :: "string option"
  minimumFractionDigits :: jsnum
  maximumFractionDigits :: jsnum

type_synonym number_format = "string \<Rightarrow> format \<Rightarrow> error + (jsnum \<Rightarrow> string)"

text \<open>
  For the examples: what \<^verbatim>\<open>Intl.NumberFormat\<close> does for the language
  \<^verbatim>\<open>en-US\<close> and the decimal style with a fixed number \<open>p\<close> of fraction digits.
  The magnitude is rounded to \<open>p\<close> digits, a tie going away from zero, the integer part
  is grouped in threes, and the fraction digits must be a number from 0 to 100.
\<close>

function digits_of :: "int \<Rightarrow> string" where
  "digits_of n =
     (if n < 10 then [char_of (48 + n)] else digits_of (n div 10) @ [char_of (48 + n mod 10)])"
  by pat_completeness auto
termination
  by (relation "measure nat") auto

fun group3 :: "string \<Rightarrow> string" where
  "group3 (a # b # c # d # rest) = a # b # c # CHR '','' # group3 (d # rest)"
| "group3 s = s"

definition pad_left :: "nat \<Rightarrow> string \<Rightarrow> string" where
  "pad_left p s = replicate (p - length s) CHR ''0'' @ s"

definition en_US_decimal :: "nat \<Rightarrow> jsnum \<Rightarrow> string" where
  "en_US_decimal p a =
     (case a of
        NaN \<Rightarrow> ''NaN''
      | PInf \<Rightarrow> [CHR 0xE2, CHR 0x88, CHR 0x9E]
      | NInf \<Rightarrow> CHR ''-'' # [CHR 0xE2, CHR 0x88, CHR 0x9E]
      | Fin x \<Rightarrow>
          (let r = \<lfloor>\<bar>x\<bar> * 10 ^ p + 1 / 2\<rfloor>
           in (if x < 0 then ''-'' else [])
              @ rev (group3 (rev (digits_of (r div 10 ^ p))))
              @ (if p = 0 then [] else CHR ''.'' # pad_left p (digits_of (r mod 10 ^ p)))))"

text \<open>The stand-in for \<^verbatim>\<open>Intl.NumberFormat\<close> in the examples, all of which use the
  language \<^verbatim>\<open>en-US\<close> and no format code: language and style are not inspected.\<close>

definition NumberFormat_en_US :: number_format where
  "NumberFormat_en_US lang fmt =
     (case minimumFractionDigits fmt of
        Fin d \<Rightarrow> if 0 \<le> d \<and> d \<le> 100 then Inr (en_US_decimal (nat \<lfloor>d\<rfloor>)) else Inl RangeError
      | _ \<Rightarrow> Inl RangeError)"

section \<open>The counter\<close>

text \<open>The class constants \<^verbatim>\<open>ANIM_DISABLED\<close> (-1), \<^verbatim>\<open>ANIM_READY\<close> (0),
  \<^verbatim>\<open>ANIM_ACTIVE\<close> (1) and \<^verbatim>\<open>ANIM_COMPLETE\<close> (2).\<close>

datatype anim_state = ANIM_DISABLED | ANIM_READY | ANIM_ACTIVE | ANIM_COMPLETE

text \<open>The field \<^verbatim>\<open>current\<close> holds a number while the animation runs and the
  formatted text after \<^verbatim>\<open>reset\<close>.\<close>

datatype jsval = JNum jsnum | JStr string

text \<open>The element the counter is bound to: its \<^verbatim>\<open>data-counter\<close> attribute, absent
  or a string, and its text content.\<close>

record element =
  dataset_counter :: "string option"
  textContent :: string

text \<open>What a call reads from the page: the element's bounding rectangle, the size of
  the window and \<^verbatim>\<open>document.timeline.currentTime\<close> (of an active timeline, so a
  number).\<close>

record domrect =
  r_width :: rat
  r_height :: rat
  r_top :: rat
  r_left :: rat
  r_bottom :: rat
  r_right :: rat

record env =
  rect :: domrect
  innerWidth :: rat
  innerHeight :: rat
  currentTime :: jsnum

text \<open>The options object: a field is \<open>None\<close> when the option is absent or has another
  type than the constructor accepts (\<^verbatim>\<open>debug\<close>: a boolean or a number).\<close>

record opts =
  opt_debug :: "(bool + jsnum) option"
  opt_language :: "string option"
  opt_limit :: "jsnum option"
  opt_precision :: "jsnum option"

text \<open>The instance. Its last two fields are the page's side of it: whether
  \<^verbatim>\<open>animateOnScroll\<close> is registered as a scroll listener of the document, and how many
  frames requested with \<^verbatim>\<open>requestAnimationFrame\<close> are outstanding.\<close>

record counter =
  debug :: bool
  language :: string
  node :: element
  count :: nat
  start :: jsnum
  current :: jsval
  target :: jsnum
  increment :: jsnum
  limit :: jsnum
  precision :: jsnum
  duration :: jsnum
  state :: anim_state
  timestamp :: jsnum
  formatter :: "jsnum \<Rightarrow> string"
  scroll_listener :: bool
  frame_requests :: nat

subsection \<open>The methods\<close>

text \<open>\<^verbatim>\<open>steps()\<close> returns \<^verbatim>\<open>this.target - this.start / this.increment\<close>.\<close>

definition steps :: "counter \<Rightarrow> jsnum" where
  "steps c = js_sub (target c) (js_div (start c) (increment c))"

definition set_text :: "string \<Rightarrow> counter \<Rightarrow> counter" where
  "set_text s c = c\<lparr>node := (node c)\<lparr>textContent := s\<rparr>\<rparr>"

definition reset :: "counter \<Rightarrow> counter" where
  "reset c =
     (let s = formatter c (target c)
      in (set_text s (c\<lparr>timestamp := Fin 0, current := JStr s\<rparr>))\<lparr>state := ANIM_READY\<rparr>)"

text \<open>\<^verbatim>\<open>this.current >= this.target\<close>: a string operand is converted to a number.\<close>

definition number_of :: "jsval \<Rightarrow> jsnum" where
  "number_of v = (case v of JNum a \<Rightarrow> a | JStr s \<Rightarrow> to_number s)"

definition current_ge_target :: "counter \<Rightarrow> bool" where
  "current_ge_target c = js_ge (number_of (current c)) (target c)"

text \<open>\<^verbatim>\<open>animate(timestamp)\<close>. A call without an argument passes \<open>NaN\<close>, which is what
  the subtraction makes of \<^verbatim>\<open>undefined\<close>.\<close>

definition animate :: "env \<Rightarrow> jsnum \<Rightarrow> counter \<Rightarrow> counter" where
  "animate e t c =
     (if state c = ANIM_DISABLED then c
      else if state c = ANIM_COMPLETE then c
      else if state c = ANIM_READY then
        c\<lparr>current := JNum (start c),
          state := ANIM_ACTIVE,
          timestamp := currentTime e,
          frame_requests := frame_requests c + 1,
          count := count c + 1\<rparr>
      else
        (let elapsed = js_sub t (timestamp c);
             c1 = (if js_gt elapsed (Fin 0) then
                     (let percent_complete = js_div elapsed (duration c);
                          steps_complete = js_mul (steps c) percent_complete;
                          cur0 = js_mul (js_round (js_div steps_complete (increment c)))
                                   (increment c);
                          cur1 = (if js_ge cur0 (target c) then target c else cur0);
                          cur2 = (if js_gt elapsed (duration c) then target c else cur1)
                      in set_text (formatter c cur2) (c\<lparr>current := JNum cur2\<rparr>))
                   else c)
         in if current_ge_target c1 then c1\<lparr>state := ANIM_COMPLETE\<rparr>
            else c1\<lparr>frame_requests := frame_requests c1 + 1\<rparr>))"

definition disable :: "counter \<Rightarrow> counter" where
  "disable c = (reset c)\<lparr>state := ANIM_DISABLED, scroll_listener := False\<rparr>"

definition inView :: "env \<Rightarrow> bool" where
  "inView e =
     (let r = rect e
      in r_width r \<noteq> 0 \<and> r_height r \<noteq> 0 \<and> 0 \<le> r_top r \<and> 0 \<le> r_left r
         \<and> r_bottom r \<le> innerHeight e \<and> r_right r \<le> innerWidth e)"

definition enable :: "env \<Rightarrow> counter \<Rightarrow> counter" where
  "enable e c =
     (let c1 = reset c;
          c2 = (if inView e then animate e NaN c1 else c1)
      in c2\<lparr>scroll_listener := True\<rparr>)"

definition animateOnScroll :: "env \<Rightarrow> counter \<Rightarrow> counter" where
  "animateOnScroll e c =
     (if falsy (limit c) \<or> js_lt (Fin (of_nat (count c))) (limit c) then
        (if \<not> inView e then reset c
         else if state c = ANIM_READY then animate e NaN c
         else c)
      else if state c \<noteq> ANIM_ACTIVE then disable c
      else c)"

subsection \<open>The constructor\<close>

text \<open>\<^verbatim>\<open>s.split(':')\<close>, \<^verbatim>\<open>s.indexOf('.')\<close> and \<^verbatim>\<open>data[i]\<close>, which is
  \<^verbatim>\<open>undefined\<close> past the end.\<close>

fun split_colon :: "string \<Rightarrow> string list" where
  "split_colon [] = [[]]"
| "split_colon (x # xs) =
     (if x = CHR '':'' then [] # split_colon xs
      else (case split_colon xs of [] \<Rightarrow> [[x]] | s # ss \<Rightarrow> (x # s) # ss))"

definition indexOf_dot :: "string \<Rightarrow> int" where
  "indexOf_dot s =
     (if CHR ''.'' \<in> set s then int (length (takeWhile (\<lambda>x. x \<noteq> CHR ''.'') s)) else - 1)"

definition item :: "'a list \<Rightarrow> nat \<Rightarrow> 'a option" where
  "item xs i = (if i < length xs then Some (xs ! i) else None)"

text \<open>The \<^verbatim>\<open>switch\<close> over the format code: style, currency, unit.\<close>

definition format_codes :: "(string \<times> string \<times> string option \<times> string option) list" where
  "format_codes =
     [(''%'', ''percent'', None, None),
      (''$'', ''currency'', Some ''USD'', None),
      ([CHR 0xE2, CHR 0x82, CHR 0xAC], ''currency'', Some ''EUR'', None),
      ([CHR 0xC2, CHR 0xA3], ''currency'', Some ''GBP'', None),
      (''cad'', ''currency'', Some ''CAD'', None),
      (''eur'', ''currency'', Some ''EUR'', None),
      (''gbp'', ''currency'', Some ''GBP'', None),
      (''usd'', ''currency'', Some ''USD'', None),
      (''b'', ''unit'', None, Some ''bit''),
      (''B'', ''unit'', None, Some ''byte''),
      (''c'', ''unit'', None, Some ''celsius''),
      (''cm'', ''unit'', None, Some ''centimeter''),
      (''d'', ''unit'', None, Some ''day''),
      (''deg'', ''unit'', None, Some ''degree''),
      (''f'', ''unit'', None, Some ''fahrenheit''),
      (''foz'', ''unit'', None, Some ''fluid-ounce''),
      (''ft'', ''unit'', None, Some ''foot''),
      (''g'', ''unit'', None, Some ''gram''),
      (''gal'', ''unit'', None, Some ''gallon''),
      (''gb'', ''unit'', None, Some ''gigabit''),
      (''GB'', ''unit'', None, Some ''gigabyte''),
      (''h'', ''unit'', None, Some ''hour''),
      (''in'', ''unit'', None, Some ''inch''),
      (''kb'', ''unit'', None, Some ''kilobit''),
      (''KB'', ''unit'', None, Some ''kilobyte''),
      (''kg'', ''unit'', None, Some ''kilogram''),
      (''km'', ''unit'', None, Some ''kilometer''),
      (''l'', ''unit'', None, Some ''liter''),
      (''lb'', ''unit'', None, Some ''pound''),
      (''m'', ''unit'', None, Some ''meter''),
      (''mb'', ''unit'', None, Some ''megabit''),
      (''MB'', ''unit'', None, Some ''megabyte''),
      (''mi'', ''unit'', None, Some ''mile''),
      (''min'', ''unit'', None, Some ''minute''),
      (''ml'', ''unit'', None, Some ''milliliter''),
      (''mm'', ''unit'', None, Some ''millimeter''),
      ([CHR 0xCE, CHR 0xBC, CHR ''s''], ''unit'', None, Some ''microsecond''),
      (''ms'', ''unit'', None, Some ''millisecond''),
      (''ns'', ''unit'', None, Some ''nanosecond''),
      (''oz'', ''unit'', None, Some ''ounce''),
      (''pb'', ''unit'', None, Some ''petabit''),
      (''PB'', ''unit'', None, Some ''petabyte''),
      (''pct'', ''unit'', None, Some ''percent''),
      (''s'', ''unit'', None, Some ''second''),
      (''tb'', ''unit'', None, Some ''terabit''),
      (''TB'', ''unit'', None, Some ''terabyte''),
      (''yd'', ''unit'', None, Some ''yard''),
      (''yr'', ''unit'', None, Some ''year'')]"

definition format_of :: "string option \<Rightarrow> jsnum \<Rightarrow> format" where
  "format_of code p =
     (case (case code of None \<Rightarrow> None | Some k \<Rightarrow> map_of format_codes k) of
        None \<Rightarrow>
          \<lparr>style = ''decimal'', currency = None, unit = None,
           minimumFractionDigits = p, maximumFractionDigits = p\<rparr>
      | Some (st, cu, un) \<Rightarrow>
          \<lparr>style = st, currency = cu, unit = un,
           minimumFractionDigits = p, maximumFractionDigits = p\<rparr>)"

text \<open>
  \<^verbatim>\<open>new AnimatedCounter(element, opts)\<close>. Reading \<^verbatim>\<open>split\<close> of a missing
  attribute and \<^verbatim>\<open>indexOf\<close> of a missing second segment raise a
  \<^verbatim>\<open>TypeError\<close>; an error of \<^verbatim>\<open>Intl.NumberFormat\<close> passes through. Nothing is
  caught. The write to the console under \<^verbatim>\<open>debug\<close> is left out.
\<close>

definition constructor :: "number_format \<Rightarrow> env \<Rightarrow> element \<Rightarrow> opts \<Rightarrow> error + counter" where
  "constructor NumberFormat e el os =
     (case dataset_counter el of
        None \<Rightarrow> Inl TypeError
      | Some attr \<Rightarrow>
          (let data = split_colon attr in
           case data of
             [] \<Rightarrow> Inl TypeError
           | [d0] \<Rightarrow> Inl TypeError
           | d0 # d1 # _ \<Rightarrow>
               (let dots = (indexOf_dot d0, indexOf_dot d1);
                    c_start = (if - 1 < indexOf_dot d0 then parseFloat d0 else parseInt d0);
                    c_target = (if - 1 < indexOf_dot d1 then parseFloat d1 else parseInt d1);
                    c_duration =
                      js_mul (Fin 1000)
                        (case item data 2 of Some d2 \<Rightarrow> parseFloat d2 | None \<Rightarrow> Fin (3 / 2));
                    precision0 =
                      (if - 1 < snd dots then Fin (of_int (int (length d1) - snd dots - 1))
                       else Fin 0);
                    c_increment =
                      (if js_gt c_target (Fin 20) then Fin 1
                       else if js_gt c_target (Fin 10) then Fin (1 / 10) else Fin (1 / 100));
                    c_debug =
                      (case opt_debug os of
                         Some (Inl b) \<Rightarrow> b
                       | Some (Inr n) \<Rightarrow> \<not> falsy n
                       | None \<Rightarrow> False);
                    c_language = (case opt_language os of Some l \<Rightarrow> l | None \<Rightarrow> ''en-US'');
                    c_limit = (case opt_limit os of Some n \<Rightarrow> n | None \<Rightarrow> Fin 0);
                    c_precision = (case opt_precision os of Some n \<Rightarrow> n | None \<Rightarrow> precision0);
                    fmt = format_of (item data 3) c_precision
                in case NumberFormat c_language fmt of
                     Inl err \<Rightarrow> Inl err
                   | Inr f \<Rightarrow>
                       Inr (enable e
                         \<lparr>debug = c_debug, language = c_language, node = el, count = 0,
                          start = c_start, current = JNum c_start, target = c_target,
                          increment = c_increment, limit = c_limit, precision = c_precision,
                          duration = c_duration, state = ANIM_DISABLED, timestamp = Fin 0,
                          formatter = f, scroll_listener = False, frame_requests = 0\<rparr>))))"



subsection \<open>Events of the page\<close>

text \<open>A scroll event calls \<^verbatim>\<open>animateOnScroll\<close> when it is registered; a frame
  calls \<^verbatim>\<open>animate\<close> with its time for a request that is outstanding.\<close>

datatype event = Scroll env | Frame env jsnum

fun dispatch :: "counter \<Rightarrow> event \<Rightarrow> counter" where
  "dispatch c (Scroll e) = (if scroll_listener c then animateOnScroll e c else c)"
| "dispatch c (Frame e t) =
     (if frame_requests c = 0 then c
      else animate e t (c\<lparr>frame_requests := frame_requests c - 1\<rparr>))"

definition run :: "counter \<Rightarrow> event list \<Rightarrow> counter" where
  "run c evs = foldl dispatch c evs"

text \<open>The instances a page can hold: a constructed one, and what the methods and the
  page's events make of it.\<close>

inductive reachable :: "counter \<Rightarrow> bool" where
  constructed: "constructor nf e el os = Inr c \<Longrightarrow> reachable c"
| by_enable: "reachable c \<Longrightarrow> reachable (enable e c)"
| by_disable: "reachable c \<Longrightarrow> reachable (disable c)"
| by_animate: "reachable c \<Longrightarrow> reachable (animate e t c)"
| by_animateOnScroll: "reachable c \<Longrightarrow> reachable (animateOnScroll e c)"
| by_reset: "reachable c \<Longrightarrow> reachable (reset c)"
| by_event: "reachable c \<Longrightarrow> reachable (dispatch c ev)"

subsection \<open>Invariants\<close>

text \<open>A disabled instance has no scroll listener; the node shows the formatted target
  unless an animation is under way that has written a value below the target.\<close>

definition unheard :: "counter \<Rightarrow> bool" where
  "unheard c = (state c = ANIM_DISABLED \<longrightarrow> \<not> scroll_listener c)"

definition shows_target :: "counter \<Rightarrow> bool" where
  "shows_target c = (textContent (node c) = formatter c (target c))"

definition text_inv :: "counter \<Rightarrow> bool" where
  "text_inv c =
     ((state c \<noteq> ANIM_ACTIVE \<longrightarrow> shows_target c)
      \<and> (state c = ANIM_ACTIVE \<longrightarrow> shows_target c \<or> \<not> current_ge_target c))"

text \<open>The interval claimed for \<^verbatim>\<open>current\<close>, a text read as the number a
  comparison makes of it.\<close>

definition within_range :: "counter \<Rightarrow> bool" where
  "within_range c =
     (js_le (start c) (number_of (current c)) \<and> js_le (number_of (current c)) (target c))"

text \<open>What a frame update computes from the step count \<open>s\<close>, the duration \<open>d\<close>,
  the increment \<open>i\<close>, the target \<open>g\<close> and the elapsed time, all of them finite.\<close>

definition frame_value :: "rat \<Rightarrow> rat \<Rightarrow> rat \<Rightarrow> rat \<Rightarrow> rat \<Rightarrow> rat" where
  "frame_value s d i g el =
     (if d < el then g
      else if g \<le> of_int \<lfloor>s * (el / d) / i + 1 / 2\<rfloor> * i then g
      else of_int \<lfloor>s * (el / d) / i + 1 / 2\<rfloor> * i)"

subsection \<open>Examples\<close>

definition bound_to :: "string \<Rightarrow> element" where
  "bound_to attr = \<lparr>dataset_counter = Some attr, textContent = []\<rparr>"

definition no_opts :: opts where
  "no_opts = \<lparr>opt_debug = None, opt_language = None, opt_limit = None, opt_precision = None\<rparr>"

text \<open>An 800 by 600 window with the element, 100 by 20, at the given distance from the
  top: in view at 10, out of view at 900.\<close>

definition page :: "rat \<Rightarrow> jsnum \<Rightarrow> env" where
  "page y now =
     \<lparr>rect = \<lparr>r_width = 100, r_height = 20, r_top = y, r_left = 0,
              r_bottom = y + 20, r_right = 100\<rparr>,
      innerWidth = 800, innerHeight = 600, currentTime = now\<rparr>"

text \<open>The counter built from \<^verbatim>\<open>data-counter="0:100:1"\<close> on an element out of view.\<close>

definition sample :: counter where
  "sample =
     projr (constructor NumberFormat_en_US (page 900 (Fin 0)) (bound_to ''0:100:1'') no_opts)"

text \<open>The counter built from \<^verbatim>\<open>data-counter="5:15"\<close> on an element in view, and
  the one built from \<^verbatim>\<open>data-counter="0:1000"\<close> on an element out of view.\<close>

definition rising :: counter where
  "rising = projr (constructor NumberFormat_en_US (page 10 (Fin 0)) (bound_to ''5:15'') no_opts)"

definition thousand :: counter where
  "thousand = projr (constructor NumberFormat_en_US (page 900 (Fin 0)) (bound_to ''0:1000'') no_opts)"

section \<open>Properties of the methods\<close>

lemma js_ge_refl_iff: "js_ge a a = (a \<noteq> NaN)"
  by (cases a) (simp_all add: js_ge_def)

lemma js_gt_trans_zero: "js_gt a d \<Longrightarrow> js_ge d (Fin 0) \<Longrightarrow> js_gt a (Fin 0)"
  by (cases a; cases d) (auto simp add: js_gt_def js_ge_def)

lemma js_le_total: "a \<noteq> NaN \<Longrightarrow> b \<noteq> NaN \<Longrightarrow> \<not> js_le b a \<Longrightarrow> js_lt a b"
  by (cases a; cases b) auto

lemma js_lt_le: "js_lt a b \<Longrightarrow> js_le a b"
  by (cases a; cases b) auto

lemma js_le_refl: "a \<noteq> NaN \<Longrightarrow> js_le a a"
  by (cases a) auto

lemma js_le_not_NaN: "js_le a b \<Longrightarrow> a \<noteq> NaN \<and> b \<noteq> NaN"
  by (cases a; cases b) auto

lemma reset_fields:
  "state (reset c) = ANIM_READY"
  "timestamp (reset c) = Fin 0"
  "current (reset c) = JStr (formatter c (target c))"
  "textContent (node (reset c)) = formatter c (target c)"
  "formatter (reset c) = formatter c"
  "target (reset c) = target c"
  "start (reset c) = start c"
  "count (reset c) = count c"
  "limit (reset c) = limit c"
  "scroll_listener (reset c) = scroll_listener c"
  "frame_requests (reset c) = frame_requests c"
  by (simp_all add: reset_def set_text_def Let_def)

lemma disable_fields:
  "state (disable c) = ANIM_DISABLED"
  "scroll_listener (disable c) = False"
  "current (disable c) = JStr (formatter c (target c))"
  "textContent (node (disable c)) = formatter c (target c)"
  "formatter (disable c) = formatter c"
  "target (disable c) = target c"
  by (simp_all add: disable_def reset_fields)

lemma animate_keeps:
  "formatter (animate e t c) = formatter c"
  "target (animate e t c) = target c"
  "scroll_listener (animate e t c) = scroll_listener c"
  by (simp_all add: animate_def set_text_def Let_def)

lemma animate_ready:
  assumes "state c = ANIM_READY"
  shows "animate e t c =
    c\<lparr>current := JNum (start c), state := ANIM_ACTIVE, timestamp := currentTime e,
      frame_requests := frame_requests c + 1, count := count c + 1\<rparr>"
  using assms by (simp add: animate_def)

lemma animate_idle:
  "state c = ANIM_DISABLED \<or> state c = ANIM_COMPLETE \<Longrightarrow> animate e t c = c"
  by (auto simp add: animate_def)

lemma animate_not_disabling:
  "state (animate e t c) = ANIM_DISABLED \<Longrightarrow> state c = ANIM_DISABLED"
  by (cases "state c") (auto simp add: animate_def set_text_def Let_def split: if_splits)

lemma animate_forced:
  assumes "state c = ANIM_ACTIVE" "js_gt (js_sub t (timestamp c)) (duration c)"
    "js_gt (js_sub t (timestamp c)) (Fin 0)"
  shows "current (animate e t c) = JNum (target c)"
    "textContent (node (animate e t c)) = formatter c (target c)"
    "target c \<noteq> NaN \<Longrightarrow> state (animate e t c) = ANIM_COMPLETE"
  using assms
  by (simp_all add: animate_def Let_def set_text_def current_ge_target_def number_of_def
      js_ge_refl_iff)

lemma animate_frame_current:
  assumes "state c = ANIM_ACTIVE" "js_gt (js_sub t (timestamp c)) (Fin 0)" "target c \<noteq> NaN"
  shows "\<exists>x. current (animate e t c) = JNum x \<and> (js_le x (target c) \<or> x = NaN)"
proof -
  define cur0 where "cur0 = js_mul (js_round (js_div (js_mul (steps c)
      (js_div (js_sub t (timestamp c)) (duration c))) (increment c))) (increment c)"
  define cur2 where "cur2 = (if js_gt (js_sub t (timestamp c)) (duration c) then target c
      else if js_ge cur0 (target c) then target c else cur0)"
  have "current (animate e t c) = JNum cur2"
    using assms by (simp add: animate_def Let_def set_text_def cur2_def cur0_def)
  moreover have "js_le cur2 (target c) \<or> cur2 = NaN"
    using assms(3) js_le_total [of cur0 "target c"] js_lt_le [of cur0 "target c"]
    by (auto simp add: cur2_def js_ge_def js_le_refl)
  ultimately show ?thesis by blast
qed

lemma enable_state: "state (enable e c) \<noteq> ANIM_DISABLED"
  by (simp add: enable_def Let_def animate_ready reset_fields)

lemma enable_keeps:
  "start (enable e c) = start c" "target (enable e c) = target c"
  "duration (enable e c) = duration c"
  by (simp_all add: enable_def Let_def animate_def reset_def set_text_def)


lemma animateOnScroll_cases:
  "animateOnScroll e c = reset c \<or> animateOnScroll e c = animate e NaN c
   \<or> animateOnScroll e c = disable c \<or> animateOnScroll e c = c"
  by (simp add: animateOnScroll_def)

lemma animateOnScroll_keeps:
  "formatter (animateOnScroll e c) = formatter c" "target (animateOnScroll e c) = target c"
  using animateOnScroll_cases [of e c]
  by (auto simp add: reset_fields disable_fields animate_keeps)

lemma dispatch_keeps:
  "formatter (dispatch c ev) = formatter c" "target (dispatch c ev) = target c"
  by (cases ev; simp add: animateOnScroll_keeps animate_keeps)+

lemma run_keeps:
  "formatter (run c evs) = formatter c \<and> target (run c evs) = target c"
  by (induction evs arbitrary: c) (simp_all add: run_def dispatch_keeps)

text \<open>
  Frame updates are monotone in the elapsed time as long as the step count is not
  negative: of two successive frames of an \<^verbatim>\<open>ACTIVE\<close> run, the later leaves in
  \<^verbatim>\<open>current\<close> a value that is not smaller.
\<close>

lemma frame_value_le: "frame_value s d i g el \<le> g"
  by (simp add: frame_value_def)

lemma frame_value_mono:
  assumes "0 \<le> s" "0 < d" "0 < i" "0 < a" "a \<le> b"
  shows "frame_value s d i g a \<le> frame_value s d i g b"
proof -
  have "s * (a / d) / i \<le> s * (b / d) / i"
    using assms by (simp add: divide_right_mono mult_left_mono)
  then have "\<lfloor>s * (a / d) / i + 1 / 2\<rfloor> \<le> \<lfloor>s * (b / d) / i + 1 / 2\<rfloor>"
    by (simp add: floor_mono)
  then have "(of_int \<lfloor>s * (a / d) / i + 1 / 2\<rfloor> :: rat) * i \<le> of_int \<lfloor>s * (b / d) / i + 1 / 2\<rfloor> * i"
    using assms(3) by (simp add: mult_right_mono)
  then show ?thesis
    using assms(5) by (auto simp add: frame_value_def)
qed

lemma animate_frame_value:
  assumes "state c = ANIM_ACTIVE" "steps c = Fin s" "duration c = Fin d" "d \<noteq> 0"
    "increment c = Fin i" "i \<noteq> 0" "target c = Fin g" "timestamp c = Fin ts" "ts < t"
  shows "current (animate e (Fin t) c) = JNum (Fin (frame_value s d i g (t - ts)))"
  using assms
  by (simp add: animate_def Let_def set_text_def js_gt_def js_ge_def frame_value_def)

lemma animate_active_keeps:
  assumes "state c = ANIM_ACTIVE"
  shows "steps (animate e t c) = steps c" "duration (animate e t c) = duration c"
    "increment (animate e t c) = increment c" "timestamp (animate e t c) = timestamp c"
    "state (animate e t c) = ANIM_ACTIVE \<or> state (animate e t c) = ANIM_COMPLETE"
  using assms by (simp_all add: animate_def Let_def set_text_def steps_def)

lemma successive_frames_mono:
  assumes "state c = ANIM_ACTIVE" "steps c = Fin s" "0 \<le> s" "duration c = Fin d" "0 < d"
    "increment c = Fin i" "0 < i" "target c = Fin g" "timestamp c = Fin ts"
    "ts < t1" "t1 \<le> t2"
  shows "\<exists>x1 x2. current (animate e1 (Fin t1) c) = JNum (Fin x1)
    \<and> current (animate e2 (Fin t2) (animate e1 (Fin t1) c)) = JNum (Fin x2) \<and> x1 \<le> x2"
proof -
  let ?c1 = "animate e1 (Fin t1) c"
  have x1: "current ?c1 = JNum (Fin (frame_value s d i g (t1 - ts)))"
    using assms by (simp add: animate_frame_value)
  show ?thesis
  proof (cases "state ?c1 = ANIM_COMPLETE")
    case True
    then have "animate e2 (Fin t2) ?c1 = ?c1"
      by (simp add: animate_idle)
    with x1 show ?thesis by simp
  next
    case False
    with animate_active_keeps(5) [OF assms(1), of e1 "Fin t1"] have a: "state ?c1 = ANIM_ACTIVE"
      by simp
    have "current (animate e2 (Fin t2) ?c1) = JNum (Fin (frame_value s d i g (t2 - ts)))"
      using assms animate_active_keeps [OF assms(1), of e1 "Fin t1"]
      by (intro animate_frame_value [OF a]) (simp_all add: animate_keeps)
    moreover have "frame_value s d i g (t1 - ts) \<le> frame_value s d i g (t2 - ts)"
      using assms by (intro frame_value_mono) simp_all
    ultimately show ?thesis using x1 by simp
  qed
qed

section \<open>Properties of the constructor\<close>

lemma split_colon_nonempty: "split_colon s \<noteq> []"
  by (induction s) (auto split: list.splits)

lemma split_colon_single: "CHR '':'' \<notin> set s \<Longrightarrow> split_colon s = [s]"
  by (induction s) auto

lemma split_colon_two:
  "CHR '':'' \<in> set s \<Longrightarrow> \<exists>d0 d1 ds. split_colon s = d0 # d1 # ds"
proof (induction s)
  case Nil
  then show ?case by simp
next
  case (Cons x xs)
  show ?case
  proof (cases "x = CHR '':''")
    case True
    then show ?thesis
      using split_colon_nonempty [of xs] by (cases "split_colon xs") auto
  next
    case False
    with Cons obtain d0 d1 ds where "split_colon xs = d0 # d1 # ds"
      by auto
    with False show ?thesis by simp
  qed
qed

lemma constructor_state:
  "constructor nf e el os = Inr c \<Longrightarrow> state c \<noteq> ANIM_DISABLED"
  by (auto simp add: constructor_def Let_def enable_state split: option.splits list.splits sum.splits)

lemma constructor_fields:
  assumes "dataset_counter el = Some s" "split_colon s = d0 # d1 # ds"
    "constructor nf e el os = Inr c"
  shows "start c = (if - 1 < indexOf_dot d0 then parseFloat d0 else parseInt d0)"
    "target c = (if - 1 < indexOf_dot d1 then parseFloat d1 else parseInt d1)"
    "duration c = js_mul (Fin 1000)
       (case item (d0 # d1 # ds) 2 of Some d2 \<Rightarrow> parseFloat d2 | None \<Rightarrow> Fin (3 / 2))"
  using assms
  by (auto simp add: constructor_def Let_def enable_keeps split: sum.splits split del: if_split)



lemma sample_built:
  "constructor NumberFormat_en_US (page 900 (Fin 0)) (bound_to ''0:100:1'') no_opts = Inr sample"
proof -
  have "\<not> isl (constructor NumberFormat_en_US (page 900 (Fin 0)) (bound_to ''0:100:1'') no_opts)"
    by code_simp
  then show ?thesis
    by (simp add: sample_def)
qed

section \<open>Invariants of the instances of a page\<close>

lemma unheard_animate: "unheard c \<Longrightarrow> unheard (animate e t c)"
  using animate_not_disabling [of e t c] by (auto simp add: unheard_def animate_keeps)

lemma unheard_animateOnScroll: "unheard c \<Longrightarrow> unheard (animateOnScroll e c)"
  using animateOnScroll_cases [of e c] unheard_animate [of c e NaN]
  by (auto simp add: unheard_def reset_fields disable_fields)

lemma unheard_dispatch: "unheard c \<Longrightarrow> unheard (dispatch c ev)"
proof (cases ev)
  case (Scroll e)
  assume "unheard c"
  then show ?thesis using Scroll by (simp add: unheard_animateOnScroll)
next
  case (Frame e t)
  assume "unheard c"
  then have "unheard (c\<lparr>frame_requests := frame_requests c - 1\<rparr>)"
    by (simp add: unheard_def)
  then show ?thesis using Frame \<open>unheard c\<close> by (simp add: unheard_animate)
qed

lemma reachable_unheard: "reachable c \<Longrightarrow> unheard c"
proof (induction rule: reachable.induct)
  case (constructed nf e el os c)
  then show ?case by (simp add: unheard_def constructor_state)
next
  case (by_enable c e)
  then show ?case by (simp add: unheard_def enable_state)
next
  case (by_disable c)
  then show ?case by (simp add: unheard_def disable_fields)
next
  case (by_animate c e t)
  then show ?case by (simp add: unheard_animate)
next
  case (by_animateOnScroll c e)
  then show ?case by (simp add: unheard_animateOnScroll)
next
  case (by_reset c)
  then show ?case by (simp add: unheard_def reset_fields)
next
  case (by_event c ev)
  then show ?case by (simp add: unheard_dispatch)
qed

lemma quiet_dispatch:
  assumes "state c = ANIM_DISABLED" "\<not> scroll_listener c"
  shows "state (dispatch c ev) = ANIM_DISABLED \<and> \<not> scroll_listener (dispatch c ev)
    \<and> node (dispatch c ev) = node c"
  using assms by (cases ev) (simp_all add: animate_def)

lemma quiet_run:
  "state c = ANIM_DISABLED \<Longrightarrow> \<not> scroll_listener c \<Longrightarrow>
   state (run c evs) = ANIM_DISABLED \<and> node (run c evs) = node c"
proof (induction evs arbitrary: c)
  case Nil
  then show ?case by (simp add: run_def)
next
  case (Cons ev evs)
  from quiet_dispatch [OF Cons.prems, of ev]
  have d: "state (dispatch c ev) = ANIM_DISABLED" "\<not> scroll_listener (dispatch c ev)"
    "node (dispatch c ev) = node c"
    by simp_all
  from Cons.IH [OF d(1) d(2)] d(3) show ?case
    by (simp add: run_def)
qed

lemma text_inv_page_fields [simp]:
  "text_inv (c\<lparr>frame_requests := n\<rparr>) = text_inv c"
  "text_inv (c\<lparr>scroll_listener := b\<rparr>) = text_inv c"
  by (simp_all add: text_inv_def shows_target_def current_ge_target_def)

lemma text_inv_reset: "text_inv (reset c)"
  by (simp add: text_inv_def shows_target_def reset_fields)

lemma text_inv_disable: "text_inv (disable c)"
  by (simp add: text_inv_def shows_target_def disable_fields)

lemma text_inv_animate: "text_inv c \<Longrightarrow> text_inv (animate e t c)"
proof (cases "state c")
  case ANIM_ACTIVE
  assume "text_inv c"
  with ANIM_ACTIVE show ?thesis
    by (auto simp add: text_inv_def shows_target_def animate_def Let_def set_text_def
        current_ge_target_def number_of_def split: if_splits)
next
  case ANIM_READY
  assume "text_inv c"
  with ANIM_READY show ?thesis
    by (simp add: text_inv_def shows_target_def animate_ready)
qed (simp_all add: animate_idle)

lemma text_inv_enable: "text_inv (enable e c)"
  using text_inv_animate [OF text_inv_reset, of e NaN c] text_inv_reset [of c]
  by (simp add: enable_def Let_def)

lemma text_inv_animateOnScroll: "text_inv c \<Longrightarrow> text_inv (animateOnScroll e c)"
  using animateOnScroll_cases [of e c] text_inv_animate [of c e NaN]
  by (auto simp add: text_inv_reset text_inv_disable)

lemma text_inv_dispatch: "text_inv c \<Longrightarrow> text_inv (dispatch c ev)"
proof (cases ev)
  case (Scroll e)
  assume "text_inv c"
  then show ?thesis using Scroll by (simp add: text_inv_animateOnScroll)
next
  case (Frame e t)
  assume "text_inv c"
  then have "text_inv (c\<lparr>frame_requests := frame_requests c - 1\<rparr>)"
    by simp
  then show ?thesis using Frame \<open>text_inv c\<close> by (simp add: text_inv_animate del: text_inv_page_fields)
qed

lemma constructor_text_inv: "constructor nf e el os = Inr c \<Longrightarrow> text_inv c"
  by (auto simp add: constructor_def Let_def text_inv_enable
      split: option.splits list.splits sum.splits)

lemma reachable_text_inv: "reachable c \<Longrightarrow> text_inv c"
proof (induction rule: reachable.induct)
  case (constructed nf e el os c)
  then show ?case by (rule constructor_text_inv)
qed (simp_all add: text_inv_enable text_inv_disable text_inv_animate text_inv_animateOnScroll
    text_inv_reset text_inv_dispatch)

lemma reachable_run: "reachable c \<Longrightarrow> reachable (run c evs)"
  by (induction evs arbitrary: c) (simp_all add: run_def reachable.by_event)

section \<open>The claims\<close>

text \<open>
  C1. \<^verbatim>\<open>steps()\<close> is documented as the number of increment steps, which between
  start and target is \<open>(target - start) / increment\<close>. It returns
  \<open>target - start / increment\<close> instead: for the directive \<^verbatim>\<open>5:15\<close>, whose increment
  is 0.1, that is \<open>15 - 50 = -35\<close>, where the number of steps is 100.
\<close>

theorem steps_of_5_15:
  "start rising = Fin 5 \<and> target rising = Fin 15 \<and> increment rising = Fin (1 / 10)
   \<and> steps rising = Fin (- 35)
   \<and> js_div (js_sub (target rising) (start rising)) (increment rising) = Fin 100"
  by code_simp

text \<open>
  C2. An animation started from \<^verbatim>\<open>READY\<close> on an instance a page can hold, and taken
  by any events to \<^verbatim>\<open>COMPLETE\<close>, leaves in the node exactly the formatter applied to
  the target (runs of frames alone, the uninterrupted ones, are among them). And a frame
  in the \<^verbatim>\<open>ACTIVE\<close> state whose elapsed time exceeds the duration, and is positive as
  a frame that writes must be (which a duration that is not negative makes sure of), sets
  \<^verbatim>\<open>current\<close> to the target, writes its formatted text and, for a target that is a
  number, completes the run.
\<close>

theorem completed_run_shows_target:
  "(reachable c \<and> state c = ANIM_READY \<and> state (run (animate e t0 c) evs) = ANIM_COMPLETE
      \<longrightarrow> textContent (node (run (animate e t0 c) evs)) = formatter c (target c))
   \<and> (state c = ANIM_ACTIVE \<and> js_gt (js_sub t (timestamp c)) (duration c)
        \<and> (js_gt (js_sub t (timestamp c)) (Fin 0) \<or> js_ge (duration c) (Fin 0))
      \<longrightarrow> current (animate e t c) = JNum (target c)
        \<and> textContent (node (animate e t c)) = formatter c (target c)
        \<and> (target c \<noteq> NaN \<longrightarrow> state (animate e t c) = ANIM_COMPLETE))"
proof (intro conjI impI)
  assume h: "reachable c \<and> state c = ANIM_READY \<and> state (run (animate e t0 c) evs) = ANIM_COMPLETE"
  then have "reachable (run (animate e t0 c) evs)"
    by (simp add: reachable_run reachable.by_animate)
  then have "text_inv (run (animate e t0 c) evs)"
    by (rule reachable_text_inv)
  with h have "shows_target (run (animate e t0 c) evs)"
    by (simp add: text_inv_def)
  then show "textContent (node (run (animate e t0 c) evs)) = formatter c (target c)"
    by (simp add: shows_target_def run_keeps animate_keeps)
next
  assume h: "state c = ANIM_ACTIVE \<and> js_gt (js_sub t (timestamp c)) (duration c)
        \<and> (js_gt (js_sub t (timestamp c)) (Fin 0) \<or> js_ge (duration c) (Fin 0))"
  then have p: "js_gt (js_sub t (timestamp c)) (Fin 0)"
    using js_gt_trans_zero by blast
  from h p show "current (animate e t c) = JNum (target c)"
    "textContent (node (animate e t c)) = formatter c (target c)"
    by (simp_all add: animate_forced)
  from h p show "state (animate e t c) = ANIM_COMPLETE" if "target c \<noteq> NaN"
    using that by (simp add: animate_forced)
qed

text \<open>The sample, started in view: at 500 ms of 1000 the value is 50, the frame at
  1001 ms forces 100 and completes the run with the text \<^verbatim>\<open>100\<close>.\<close>

theorem completed_run_shows_target_witness:
  "state (run (animate (page 10 (Fin 0)) NaN sample)
       [Frame (page 10 (Fin 500)) (Fin 500), Frame (page 10 (Fin 1001)) (Fin 1001)]) = ANIM_COMPLETE
   \<and> textContent (node (run (animate (page 10 (Fin 0)) NaN sample)
       [Frame (page 10 (Fin 500)) (Fin 500), Frame (page 10 (Fin 1001)) (Fin 1001)])) = ''100''
   \<and> current (animate (page 10 (Fin 500)) (Fin 500) (animate (page 10 (Fin 0)) NaN sample))
       = JNum (Fin 50)
   \<and> current (animate (page 10 (Fin 1001)) (Fin 1001) (animate (page 10 (Fin 0)) NaN sample))
       = JNum (Fin 100)"
proof -
  let ?a = "animate (page 10 (Fin 0)) NaN sample"
  let ?evs = "[Frame (page 10 (Fin 500)) (Fin 500), Frame (page 10 (Fin 1001)) (Fin 1001)]"
  have r: "reachable sample"
    by (rule reachable.constructed [OF sample_built])
  have s: "state sample = ANIM_READY" "state (run ?a ?evs) = ANIM_COMPLETE"
    "formatter sample (Fin 100) = ''100''" "target sample = Fin 100"
    by code_simp+
  have a: "state ?a = ANIM_ACTIVE" "js_gt (js_sub (Fin 1001) (timestamp ?a)) (duration ?a)"
    "js_ge (duration ?a) (Fin 0)" "target ?a = Fin 100"
    by code_simp+
  have m: "current (animate (page 10 (Fin 500)) (Fin 500) ?a) = JNum (Fin 50)"
    by code_simp
  show ?thesis
    using completed_run_shows_target [where c = sample and e = "page 10 (Fin 0)" and ?t0.0 = NaN
        and evs = ?evs]
      completed_run_shows_target [where c = ?a and e = "page 10 (Fin 1001)" and t = "Fin 1001"]
    by (simp add: r s a m)
qed

text \<open>
  C3. With the negative step count of the directive \<^verbatim>\<open>5:15\<close> the value of
  \<^verbatim>\<open>current\<close> falls from frame to frame of one \<^verbatim>\<open>ACTIVE\<close> run: -17.5 at
  750 ms of 1500 and -35 at 1500 ms (the run is still \<^verbatim>\<open>ACTIVE\<close> then). The step
  count -35 is what makes it fall: with one that is not negative, successive frames are
  monotone (\<open>successive_frames_mono\<close>).
\<close>

theorem current_falls_5_15:
  "state rising = ANIM_ACTIVE \<and> timestamp rising = Fin 0 \<and> duration rising = Fin 1500
   \<and> current rising = JNum (Fin 5)
   \<and> current (run rising [Frame (page 10 (Fin 750)) (Fin 750)]) = JNum (Fin (- 35 / 2))
   \<and> state (run rising [Frame (page 10 (Fin 750)) (Fin 750)]) = ANIM_ACTIVE
   \<and> current (run rising [Frame (page 10 (Fin 750)) (Fin 750), Frame (page 10 (Fin 1500)) (Fin 1500)])
       = JNum (Fin (- 35))
   \<and> state (run rising [Frame (page 10 (Fin 750)) (Fin 750), Frame (page 10 (Fin 1500)) (Fin 1500)])
       = ANIM_ACTIVE"
  by code_simp

text \<open>
  C4, as stated, fails. After the reset that construction performs, \<^verbatim>\<open>current\<close> of
  the counter of \<^verbatim>\<open>0:1000\<close> is the text \<^verbatim>\<open>1,000\<close>, which is no number of the
  interval from 0 to 1000; and a frame update of the counter of \<^verbatim>\<open>5:15\<close> leaves
  -17.5, below the start.
\<close>

theorem current_out_of_range:
  "js_le (start thousand) (target thousand)
   \<and> current thousand = JStr ''1,000''
   \<and> \<not> within_range thousand
   \<and> js_le (start rising) (target rising)
   \<and> \<not> within_range (run rising [Frame (page 10 (Fin 750)) (Fin 750)])"
  by code_simp

text \<open>
  C4, amended. For a counter with \<open>target \<ge> start\<close>: \<^verbatim>\<open>reset\<close> and
  \<^verbatim>\<open>disable\<close> leave in \<^verbatim>\<open>current\<close> the formatted target, a text;
  \<^verbatim>\<open>enable\<close> leaves the start in view and that text out of view;
  \<^verbatim>\<open>animateOnScroll\<close> leaves one of the two or what was there; the step from
  \<^verbatim>\<open>READY\<close> to \<^verbatim>\<open>ACTIVE\<close> sets \<^verbatim>\<open>current\<close> to the start, inside the
  interval; a frame update of an \<^verbatim>\<open>ACTIVE\<close> run (elapsed time positive) leaves a number
  that is at most the target, or \<open>NaN\<close>; a frame without elapsed time leaves
  \<^verbatim>\<open>current\<close> alone. Nothing is said of a lower bound after a frame update.
\<close>

theorem current_after_operations:
  "js_le (start c) (target c) \<Longrightarrow>
   current (reset c) = JStr (formatter c (target c))
   \<and> current (disable c) = JStr (formatter c (target c))
   \<and> current (enable e c) = (if inView e then JNum (start c) else JStr (formatter c (target c)))
   \<and> (current (animateOnScroll e c) = JStr (formatter c (target c))
      \<or> current (animateOnScroll e c) = JNum (start c)
      \<or> current (animateOnScroll e c) = current c)
   \<and> (state c = ANIM_READY \<longrightarrow>
        current (animate e t c) = JNum (start c) \<and> within_range (animate e t c))
   \<and> (state c = ANIM_ACTIVE \<and> js_gt (js_sub t (timestamp c)) (Fin 0) \<longrightarrow>
        (\<exists>x. current (animate e t c) = JNum x \<and> (js_le x (target c) \<or> x = NaN)))
   \<and> (state c = ANIM_ACTIVE \<and> \<not> js_gt (js_sub t (timestamp c)) (Fin 0) \<longrightarrow>
        current (animate e t c) = current c)"
proof (intro conjI impI)
  assume st: "js_le (start c) (target c)"
  show "current (reset c) = JStr (formatter c (target c))"
    "current (disable c) = JStr (formatter c (target c))"
    by (simp_all add: reset_fields disable_fields)
  show "current (enable e c) = (if inView e then JNum (start c) else JStr (formatter c (target c)))"
    by (simp add: enable_def Let_def animate_ready reset_fields)
  show "current (animateOnScroll e c) = JStr (formatter c (target c))
      \<or> current (animateOnScroll e c) = JNum (start c)
      \<or> current (animateOnScroll e c) = current c"
    by (simp add: animateOnScroll_def animate_ready reset_fields disable_fields)
  {
    assume r: "state c = ANIM_READY"
    show "current (animate e t c) = JNum (start c)"
      using r by (simp add: animate_ready)
    show "within_range (animate e t c)"
      using r st js_le_not_NaN [OF st]
      by (simp add: animate_ready within_range_def number_of_def js_le_refl)
  }
  {
    assume a: "state c = ANIM_ACTIVE \<and> js_gt (js_sub t (timestamp c)) (Fin 0)"
    show "\<exists>x. current (animate e t c) = JNum x \<and> (js_le x (target c) \<or> x = NaN)"
      using a js_le_not_NaN [OF st] by (simp add: animate_frame_current)
  }
  {
    assume a: "state c = ANIM_ACTIVE \<and> \<not> js_gt (js_sub t (timestamp c)) (Fin 0)"
    show "current (animate e t c) = current c"
      using a by (simp add: animate_def Let_def)
  }
qed

text \<open>The counter of \<^verbatim>\<open>5:15\<close>: reset, restarted, and at a frame update.\<close>

theorem current_after_operations_witness:
  "js_le (start rising) (target rising)
   \<and> current (reset rising) = JStr ''15''
   \<and> current (animate (page 10 (Fin 0)) NaN (reset rising)) = JNum (Fin 5)
   \<and> within_range (animate (page 10 (Fin 0)) NaN (reset rising))
   \<and> (\<exists>x. current (animate (page 10 (Fin 750)) (Fin 750) rising) = JNum x
         \<and> (js_le x (target rising) \<or> x = NaN))"
proof -
  have f: "js_le (start rising) (target rising)" "state rising = ANIM_ACTIVE"
    "js_gt (js_sub (Fin 750) (timestamp rising)) (Fin 0)"
    by code_simp+
  have v: "formatter rising (target rising) = ''15''" "start rising = Fin 5"
    by code_simp+
  have g: "js_le (start (reset rising)) (target (reset rising))"
    using f(1) by (simp add: reset_fields)
  have "\<exists>x. current (animate (page 10 (Fin 750)) (Fin 750) rising) = JNum x
         \<and> (js_le x (target rising) \<or> x = NaN)"
    using current_after_operations [OF f(1), where e = "page 10 (Fin 750)" and t = "Fin 750"] f
    by blast
  moreover have "current (reset rising) = JStr (formatter rising (target rising))"
    using current_after_operations [OF f(1), where e = "page 10 (Fin 750)" and t = "Fin 750"]
    by blast
  moreover have "current (animate (page 10 (Fin 0)) NaN (reset rising)) = JNum (start (reset rising))
      \<and> within_range (animate (page 10 (Fin 0)) NaN (reset rising))"
    using current_after_operations [OF g, of "page 10 (Fin 0)" NaN] by (simp add: reset_fields)
  ultimately show ?thesis
    using f(1) by (simp add: v reset_fields)
qed

text \<open>
  C5. From any state, \<^verbatim>\<open>reset()\<close> leaves the text of the node equal to the formatter
  applied to the target, the timestamp at 0 and the state \<^verbatim>\<open>READY\<close>; the formatter
  and the target themselves are untouched.
\<close>

theorem reset_shows_target:
  "textContent (node (reset c)) = formatter c (target c)
   \<and> timestamp (reset c) = Fin 0
   \<and> state (reset c) = ANIM_READY
   \<and> formatter (reset c) = formatter c
   \<and> target (reset c) = target c"
  by (simp add: reset_def set_text_def Let_def)

text \<open>The sample counter, taken into another state first, shows \<^verbatim>\<open>100\<close> after a
  reset.\<close>

theorem reset_shows_target_witness:
  "textContent (node (reset (sample\<lparr>state := ANIM_COMPLETE, timestamp := Fin 7\<rparr>))) = ''100''
   \<and> timestamp (reset (sample\<lparr>state := ANIM_COMPLETE, timestamp := Fin 7\<rparr>)) = Fin 0
   \<and> state (reset (sample\<lparr>state := ANIM_COMPLETE, timestamp := Fin 7\<rparr>)) = ANIM_READY"
proof -
  have "formatter sample (target sample) = ''100''"
    by code_simp
  then show ?thesis
    using reset_shows_target [of "sample\<lparr>state := ANIM_COMPLETE, timestamp := Fin 7\<rparr>"]
    by simp
qed




text \<open>
  C7, as stated, fails: the directive \<^verbatim>\<open>0:100:fast\<close> is accepted with the duration
  \<open>NaN\<close>, not 1500 ms.
\<close>

theorem malformed_duration_is_NaN:
  "\<not> isl (constructor NumberFormat_en_US (page 900 (Fin 0)) (bound_to ''0:100:fast'') no_opts)
   \<and> map_sum id duration
       (constructor NumberFormat_en_US (page 900 (Fin 0)) (bound_to ''0:100:fast'') no_opts)
     = Inr NaN"
  by code_simp

text \<open>
  C7, amended. Of a directive that construction accepts, the duration is 1000 times
  \<^verbatim>\<open>parseFloat\<close> of the third segment when there is one, and 1500 ms when there is
  none. There is no fallback: a third segment that is no number gives the duration
  \<open>NaN\<close>.
\<close>

theorem duration_of_directive:
  "dataset_counter el = Some s \<Longrightarrow> \<not> isl (constructor nf e el os) \<Longrightarrow>
   map_sum id duration (constructor nf e el os)
     = Inr (js_mul (Fin 1000)
         (case item (split_colon s) 2 of None \<Rightarrow> Fin (3 / 2) | Some d \<Rightarrow> parseFloat d))
   \<and> (item (split_colon s) 2 = None
        \<longrightarrow> map_sum id duration (constructor nf e el os) = Inr (Fin 1500))
   \<and> (\<forall>d. item (split_colon s) 2 = Some d \<and> parseFloat d = NaN
        \<longrightarrow> map_sum id duration (constructor nf e el os) = Inr NaN)"
proof -
  assume a: "dataset_counter el = Some s" and b: "\<not> isl (constructor nf e el os)"
  from b obtain c where c: "constructor nf e el os = Inr c"
    by (cases "constructor nf e el os") auto
  have "CHR '':'' \<in> set s"
  proof (rule ccontr)
    assume "CHR '':'' \<notin> set s"
    with a c show False
      by (simp add: constructor_def split_colon_single)
  qed
  then obtain d0 d1 ds where sp: "split_colon s = d0 # d1 # ds"
    using split_colon_two by blast
  have m: "map_sum id duration (constructor nf e el os)
     = Inr (js_mul (Fin 1000)
         (case item (split_colon s) 2 of None \<Rightarrow> Fin (3 / 2) | Some d \<Rightarrow> parseFloat d))"
    using constructor_fields(3) [OF a sp c] c sp
    by (cases "item (d0 # d1 # ds) 2") simp_all
  show ?thesis
    by (simp add: m)
qed

text \<open>No third segment, the segment \<^verbatim>\<open>2.5\<close>, and an empty one.\<close>

theorem duration_of_directive_witness:
  "map_sum id duration
       (constructor NumberFormat_en_US (page 900 (Fin 0)) (bound_to ''0:100'') no_opts)
     = Inr (Fin 1500)
   \<and> map_sum id duration
       (constructor NumberFormat_en_US (page 900 (Fin 0)) (bound_to ''0:100:2.5'') no_opts)
     = Inr (Fin 2500)
   \<and> map_sum id duration
       (constructor NumberFormat_en_US (page 900 (Fin 0)) (bound_to ''0:100::usd'') no_opts)
     = Inr NaN"
proof -
  have d: "dataset_counter (bound_to ''0:100'') = Some ''0:100''"
    "dataset_counter (bound_to ''0:100:2.5'') = Some ''0:100:2.5''"
    "dataset_counter (bound_to ''0:100::usd'') = Some ''0:100::usd''"
    by (simp_all add: bound_to_def)
  have s: "\<not> isl (constructor NumberFormat_en_US (page 900 (Fin 0)) (bound_to ''0:100'') no_opts)"
    "\<not> isl (constructor NumberFormat_en_US (page 900 (Fin 0)) (bound_to ''0:100:2.5'') no_opts)"
    "\<not> isl (constructor NumberFormat_en_US (page 900 (Fin 0)) (bound_to ''0:100::usd'') no_opts)"
    by code_simp+
  have v: "parseFloat ''2.5'' = Fin (5 / 2)" "parseFloat [] = NaN"
    by code_simp+
  show ?thesis
    using duration_of_directive [OF d(1) s(1)] duration_of_directive [OF d(2) s(2)]
      duration_of_directive [OF d(3) s(3)]
    by (simp add: v item_def)
qed

text \<open>
  C8. When \<^verbatim>\<open>limit > 0\<close>, \<^verbatim>\<open>count >= limit\<close> and the state is not
  \<^verbatim>\<open>ACTIVE\<close>, \<^verbatim>\<open>animateOnScroll\<close> does what \<^verbatim>\<open>disable\<close> does: the state
  becomes \<^verbatim>\<open>DISABLED\<close> and the scroll listener is removed. When \<^verbatim>\<open>limit = 0\<close> or
  \<^verbatim>\<open>count < limit\<close> it resets, starts the animation or does nothing: the listener
  stays as it was and the state is \<^verbatim>\<open>DISABLED\<close> afterwards only if it was before.
\<close>

theorem animateOnScroll_limit:
  "(js_gt (limit c) (Fin 0) \<and> js_ge (Fin (of_nat (count c))) (limit c) \<and> state c \<noteq> ANIM_ACTIVE
      \<longrightarrow> animateOnScroll e c = disable c
        \<and> state (animateOnScroll e c) = ANIM_DISABLED
        \<and> \<not> scroll_listener (animateOnScroll e c))
   \<and> (limit c = Fin 0 \<or> js_lt (Fin (of_nat (count c))) (limit c)
      \<longrightarrow> animateOnScroll e c = (if \<not> inView e then reset c
                                else if state c = ANIM_READY then animate e NaN c else c)
        \<and> scroll_listener (animateOnScroll e c) = scroll_listener c
        \<and> (state (animateOnScroll e c) = ANIM_DISABLED \<longrightarrow> state c = ANIM_DISABLED))"
proof (intro conjI impI)
  assume h: "js_gt (limit c) (Fin 0) \<and> js_ge (Fin (of_nat (count c))) (limit c) \<and> state c \<noteq> ANIM_ACTIVE"
  then have "\<not> falsy (limit c)" "\<not> js_lt (Fin (of_nat (count c))) (limit c)"
    by (cases "limit c"; auto simp add: falsy_def js_gt_def js_ge_def)+
  with h show d: "animateOnScroll e c = disable c"
    by (simp add: animateOnScroll_def)
  show "state (animateOnScroll e c) = ANIM_DISABLED" "\<not> scroll_listener (animateOnScroll e c)"
    by (simp_all add: d disable_fields)
next
  assume h: "limit c = Fin 0 \<or> js_lt (Fin (of_nat (count c))) (limit c)"
  then have g: "falsy (limit c) \<or> js_lt (Fin (of_nat (count c))) (limit c)"
    by (auto simp add: falsy_def)
  then show eq: "animateOnScroll e c = (if \<not> inView e then reset c
                                else if state c = ANIM_READY then animate e NaN c else c)"
    by (simp add: animateOnScroll_def)
  show "scroll_listener (animateOnScroll e c) = scroll_listener c"
    by (simp add: eq reset_fields animate_keeps)
  show "state c = ANIM_DISABLED" if "state (animateOnScroll e c) = ANIM_DISABLED"
    using that by (auto simp add: eq reset_fields animate_ready split: if_splits)
qed

text \<open>The sample after one completed run: with the limit 1 the next scroll event
  disables it, with no limit it stays registered and complete.\<close>

theorem animateOnScroll_limit_witness:
  "state (animateOnScroll (page 10 (Fin 40)) (sample\<lparr>limit := Fin 1, count := 1, state := ANIM_COMPLETE\<rparr>))
     = ANIM_DISABLED
   \<and> \<not> scroll_listener
        (animateOnScroll (page 10 (Fin 40)) (sample\<lparr>limit := Fin 1, count := 1, state := ANIM_COMPLETE\<rparr>))
   \<and> scroll_listener (animateOnScroll (page 10 (Fin 40)) (sample\<lparr>count := 1, state := ANIM_COMPLETE\<rparr>))
   \<and> state (animateOnScroll (page 10 (Fin 40)) (sample\<lparr>count := 1, state := ANIM_COMPLETE\<rparr>))
     = ANIM_COMPLETE"
proof -
  have s: "limit sample = Fin 0" "scroll_listener sample"
    by code_simp+
  have v: "inView (page 10 (Fin 40))"
    by code_simp
  show ?thesis
    using animateOnScroll_limit [of "sample\<lparr>limit := Fin 1, count := 1, state := ANIM_COMPLETE\<rparr>" "page 10 (Fin 40)"]
      animateOnScroll_limit [of "sample\<lparr>count := 1, state := ANIM_COMPLETE\<rparr>" "page 10 (Fin 40)"]
    by (simp add: s v js_gt_def js_ge_def disable_fields)
qed

text \<open>
  C9. Once an instance a page can hold is \<^verbatim>\<open>DISABLED\<close>, no sequence of scroll
  events and frames changes the text of its node, and it stays \<^verbatim>\<open>DISABLED\<close>:
  \<^verbatim>\<open>animate\<close> returns at once and the scroll listener is gone.
\<close>

theorem disabled_is_quiet:
  "reachable c \<Longrightarrow> state c = ANIM_DISABLED \<Longrightarrow>
   textContent (node (run c evs)) = textContent (node c) \<and> state (run c evs) = ANIM_DISABLED"
  using quiet_run [of c evs] reachable_unheard [of c] by (simp add: unheard_def)

text \<open>The sample, disabled, keeps showing \<^verbatim>\<open>100\<close> through scrolls and a
  frame.\<close>

theorem disabled_is_quiet_witness:
  "state (disable sample) = ANIM_DISABLED
   \<and> textContent (node (run (disable sample)
        [Scroll (page 10 (Fin 40)), Frame (page 10 (Fin 56)) (Fin 56), Scroll (page 900 (Fin 72))]))
     = ''100''
   \<and> state (run (disable sample)
        [Scroll (page 10 (Fin 40)), Frame (page 10 (Fin 56)) (Fin 56), Scroll (page 900 (Fin 72))])
     = ANIM_DISABLED"
proof -
  have r: "reachable (disable sample)"
    by (rule reachable.by_disable [OF reachable.constructed [OF sample_built]])
  have "formatter sample (target sample) = ''100''"
    by code_simp
  then show ?thesis
    using disabled_is_quiet [OF r, of "[Scroll (page 10 (Fin 40)), Frame (page 10 (Fin 56)) (Fin 56), Scroll (page 900 (Fin 72))]"]
    by (simp add: disable_fields)
qed

text \<open>
  C10. Whatever the state, the count and the limit of the instance, \<^verbatim>\<open>enable()\<close>
  resets it (the node shows the formatted target), registers the scroll listener, and
  starts the animation at once when the element is in view: the state is then
  \<^verbatim>\<open>ACTIVE\<close>, the count one higher, \<^verbatim>\<open>current\<close> the start value and one more
  frame is requested. Out of view the state is \<^verbatim>\<open>READY\<close>. Neither \<^verbatim>\<open>limit\<close>
  nor \<^verbatim>\<open>count\<close> is consulted, so \<^verbatim>\<open>DISABLED\<close> is not terminal for
  \<^verbatim>\<open>enable()\<close>.
\<close>

theorem enable_restarts:
  "scroll_listener (enable e c)
   \<and> textContent (node (enable e c)) = formatter c (target c)
   \<and> (if inView e
       then state (enable e c) = ANIM_ACTIVE
          \<and> count (enable e c) = count c + 1
          \<and> current (enable e c) = JNum (start c)
          \<and> timestamp (enable e c) = currentTime e
          \<and> frame_requests (enable e c) = frame_requests c + 1
       else state (enable e c) = ANIM_READY
          \<and> count (enable e c) = count c
          \<and> frame_requests (enable e c) = frame_requests c)"
  by (simp add: enable_def Let_def animate_ready reset_fields)

text \<open>A disabled instance that has used up its limit of 1 runs again after
  \<^verbatim>\<open>enable()\<close> in view.\<close>

theorem enable_restarts_witness:
  "state (disable (sample\<lparr>limit := Fin 1, count := 1\<rparr>)) = ANIM_DISABLED
   \<and> state (enable (page 10 (Fin 40)) (disable (sample\<lparr>limit := Fin 1, count := 1\<rparr>))) = ANIM_ACTIVE
   \<and> count (enable (page 10 (Fin 40)) (disable (sample\<lparr>limit := Fin 1, count := 1\<rparr>))) = 2
   \<and> scroll_listener (enable (page 10 (Fin 40)) (disable (sample\<lparr>limit := Fin 1, count := 1\<rparr>)))
   \<and> textContent (node (enable (page 10 (Fin 40)) (disable (sample\<lparr>limit := Fin 1, count := 1\<rparr>)))) = ''100''"
proof -
  have "inView (page 10 (Fin 40))"
    by code_simp
  moreover have "formatter sample (target sample) = ''100''"
    by code_simp
  ultimately show ?thesis
    using enable_restarts [of "page 10 (Fin 40)" "disable (sample\<lparr>limit := Fin 1, count := 1\<rparr>)"]
    by (simp add: disable_fields disable_def reset_fields)
qed

end
